theory Spec2Isabelle
  imports Main
begin

section \<open>The widget renderer of packages/jupyterlab-manager/src/renderer.ts\<close>

text \<open>
  \<^verbatim>\<open>WidgetRenderer\<close> is a Lumino \<^verbatim>\<open>Panel\<close> with one asynchronous method,
  \<^verbatim>\<open>renderModel\<close>. JavaScript runs it on a single thread: the method runs until an
  \<^verbatim>\<open>await\<close>, is suspended there, and is resumed later with the outcome of the awaited
  promise. The model follows that: every call of \<^verbatim>\<open>renderModel\<close> is a task (the
  promise the call returns), the code between two \<^verbatim>\<open>await\<close>s is one function on the
  state, and other calls (the setter, \<^verbatim>\<open>dispose\<close>, a signal) may run between two
  segments of a task.

  Objects are addresses (\<open>nat\<close>): managers, mime models, the payload objects stored in a
  mime model's \<^verbatim>\<open>data\<close>, widget models and views.
\<close>

subsection \<open>Data\<close>

text \<open>
  What an \<^verbatim>\<open>await\<close> or a call can fail with: a \<^verbatim>\<open>TypeError\<close> of the runtime
  (a property read on \<^verbatim>\<open>undefined\<close> or \<^verbatim>\<open>null\<close>), the \<^verbatim>\<open>NotFoundError\<close> that
  \<^verbatim>\<open>Node.removeChild\<close> throws for a node that is not a child, or the reason a promise of
  the manager was rejected with.
\<close>

datatype js_error = TypeError | NotFoundError | Reason nat

text \<open>
  The payload \<^verbatim>\<open>model.data[mimeType]\<close> of a widget view: an object with a mutable
  \<^verbatim>\<open>model_id\<close>, a string.
\<close>

record source_obj =
  model_id :: string

text \<open>
  The promise returned by one call of \<^verbatim>\<open>renderModel\<close>, with the local variables
  that are live at the \<^verbatim>\<open>await\<close> where it is suspended:
  \<^item> \<open>AwaitManager model source\<close>: at \<^verbatim>\<open>await this._manager.promise\<close> (line 53);
    \<open>source\<close> is \<open>None\<close> when \<^verbatim>\<open>model.data[this.mimeType]\<close> is \<^verbatim>\<open>undefined\<close> or
    \<^verbatim>\<open>null\<close>;
  \<^item> \<open>AwaitGetModel model source manager\<close>: at \<^verbatim>\<open>await manager.get_model(...)\<close> (line 62);
  \<^item> \<open>AwaitDisplay model source manager\<close>: at \<^verbatim>\<open>await manager.display_model(...)\<close> (line 82);
  \<^item> \<open>Fulfilled\<close>, \<open>Rejected e\<close>: the promise is settled.
\<close>

datatype task =
    AwaitManager nat "nat option"
  | AwaitGetModel nat nat nat
  | AwaitDisplay nat nat nat
  | Fulfilled
  | Rejected js_error

text \<open>The calls made on a manager: \<^verbatim>\<open>get_model(id)\<close> and \<^verbatim>\<open>display_model(null, wModel, undefined)\<close>.\<close>

datatype query = GetModel nat string | DisplayModel nat nat

text \<open>
  The state. The fields of the class:
  \<^item> \<open>mimeType\<close> (line 138);
  \<^item> \<open>manager_promise\<close>: the \<^verbatim>\<open>PromiseDelegate\<close> created by the initialiser of
    \<^verbatim>\<open>_manager\<close> (line 139), \<open>None\<close> while pending, \<open>Some m\<close> once resolved with
    manager \<open>m\<close>; a task suspended on its promise keeps the promise when the field is
    overwritten;
  \<^item> \<open>manager_null\<close>: the field \<^verbatim>\<open>_manager\<close> has been overwritten with \<^verbatim>\<open>null\<close> (line 121);
  \<^item> \<open>rerenderMimeModel\<close> (line 140).
  What the code reaches through the Lumino base class:
  \<^item> \<open>textContent\<close>: the text last assigned to \<^verbatim>\<open>this.node.textContent\<close>;
  \<^item> \<open>childNodes\<close>: the views whose node is a child of \<^verbatim>\<open>this.node\<close>, in order;
  \<^item> \<open>classList\<close>: of \<^verbatim>\<open>this.node\<close> (only the classes this file adds);
  \<^item> \<open>isHidden\<close>: set by \<^verbatim>\<open>hide()\<close>;
  \<^item> \<open>layout\<close>: the widgets of the panel's layout (a widget is in it once at most),
    \<open>None\<close> once the panel's own \<^verbatim>\<open>dispose\<close> has disposed the layout and set it to
    \<^verbatim>\<open>null\<close>; the views in it are those whose parent is the panel;
  \<^item> \<open>disposed_views\<close>: the views whose \<^verbatim>\<open>dispose\<close> has run;
  \<^item> \<open>restored_slots\<close>: the managers whose \<^verbatim>\<open>restored\<close> signal is connected to
    \<^verbatim>\<open>this._rerender\<close>;
  \<^item> \<open>disposed_slots\<close>: the closures of lines 96-99 connected to the \<^verbatim>\<open>disposed\<close>
    signal of a view, each as the view and the \<^verbatim>\<open>source\<close> it captured.
  The surroundings:
  \<^item> \<open>tasks\<close>: the promises returned by the calls of \<^verbatim>\<open>renderModel\<close>, in call order;
  \<^item> \<open>queries\<close>: the calls made on managers, in order;
  \<^item> \<open>console\<close>: the arguments of \<^verbatim>\<open>console.error\<close>, in order;
  \<^item> \<open>bundles\<close>: the \<^verbatim>\<open>data\<close> of each mime model, from mime type to payload object,
    \<open>None\<close> where the key is absent or its value is \<^verbatim>\<open>null\<close>;
  \<^item> \<open>heap\<close>: the payload objects;
  \<^item> \<open>restoredStatus\<close>: the property \<^verbatim>\<open>restoredStatus\<close> of each manager.
\<close>

record world =
  mimeType :: string
  manager_promise :: "nat option"
  manager_null :: bool
  rerenderMimeModel :: "nat option"
  textContent :: string
  childNodes :: "nat list"
  classList :: "string list"
  isHidden :: bool
  layout :: "nat list option"
  disposed_views :: "nat list"
  restored_slots :: "nat list"
  disposed_slots :: "(nat \<times> nat) list"
  tasks :: "task list"
  queries :: "query list"
  console :: "js_error list"
  bundles :: "nat \<Rightarrow> (string \<rightharpoonup> nat)"
  heap :: "nat \<Rightarrow> source_obj"
  restoredStatus :: "nat \<Rightarrow> bool"

subsection \<open>The Lumino operations the class calls\<close>

text \<open>
  These belong to the libraries \<^verbatim>\<open>@lumino/widgets\<close>, \<^verbatim>\<open>@lumino/signaling\<close> and
  \<^verbatim>\<open>@lumino/coreutils\<close>, which the file imports; they are modelled on the part of the
  state above.
\<close>

text \<open>
  Assigning \<^verbatim>\<open>this.node.textContent\<close>: every child of the node is removed, also the
  nodes of the views in the layout, and replaced by the text.
\<close>

definition set_textContent :: "string \<Rightarrow> world \<Rightarrow> world" where
  "set_textContent t w = w\<lparr>textContent := t, childNodes := []\<rparr>"

text \<open>\<^verbatim>\<open>Widget.addClass\<close> and \<^verbatim>\<open>Widget.removeClass\<close>: the class list is a set kept in order.\<close>

definition addClass :: "string \<Rightarrow> world \<Rightarrow> world" where
  "addClass c w =
     w\<lparr>classList := (if c \<in> set (classList w) then classList w else classList w @ [c])\<rparr>"

definition removeClass :: "string \<Rightarrow> world \<Rightarrow> world" where
  "removeClass c w = w\<lparr>classList := removeAll c (classList w)\<rparr>"

definition hasClass :: "string \<Rightarrow> world \<Rightarrow> bool" where
  "hasClass c w = (c \<in> set (classList w))"

text \<open>\<^verbatim>\<open>Widget.hide\<close>.\<close>

definition hide :: "world \<Rightarrow> world" where
  "hide w = w\<lparr>isHidden := True\<rparr>"

text \<open>
  \<^verbatim>\<open>Signal.connect(this._rerender, this)\<close> on the \<^verbatim>\<open>restored\<close> signal of manager
  \<open>v\<close>. A connection of a signal to one slot and receiver is unique: connecting it a
  second time changes nothing.
\<close>

definition connect_restored :: "nat \<Rightarrow> world \<Rightarrow> world" where
  "connect_restored v w =
     w\<lparr>restored_slots :=
         (if v \<in> set (restored_slots w) then restored_slots w else restored_slots w @ [v])\<rparr>"

text \<open>
  \<^verbatim>\<open>PromiseDelegate.resolve(value)\<close>: settles the promise if it is pending; a promise
  that is settled stays as it is.
\<close>

definition resolve :: "nat \<Rightarrow> nat option \<Rightarrow> nat option" where
  "resolve v p = (case p of None \<Rightarrow> Some v | Some m \<Rightarrow> Some m)"

text \<open>\<^verbatim>\<open>console.error(err)\<close>.\<close>

definition console_error :: "js_error \<Rightarrow> world \<Rightarrow> world" where
  "console_error e w = w\<lparr>console := console w @ [e]\<rparr>"

text \<open>Settling or suspending task \<open>i\<close>.\<close>

definition set_task :: "nat \<Rightarrow> task \<Rightarrow> world \<Rightarrow> world" where
  "set_task i t w = w\<lparr>tasks := (tasks w)[i := t]\<rparr>"

text \<open>The widgets of the layout, none when the layout is \<^verbatim>\<open>null\<close>.\<close>

definition widgets :: "world \<Rightarrow> nat list" where
  "widgets w = (case layout w of None \<Rightarrow> [] | Some ws \<Rightarrow> ws)"

text \<open>
  \<^verbatim>\<open>this.node.removeChild(widget.node)\<close>: throws when the node is not a child.
\<close>

definition removeChild :: "nat \<Rightarrow> world \<Rightarrow> js_error option \<times> world" where
  "removeChild v w =
     (if v \<in> set (childNodes w) then (None, w\<lparr>childNodes := removeAll v (childNodes w)\<rparr>)
      else (Some NotFoundError, w))"

text \<open>
  \<^verbatim>\<open>insertBefore(widget.node, this.node.children[j])\<close>: the node becomes child \<open>j\<close>,
  or the last child when there are fewer.
\<close>

definition insertChild :: "nat \<Rightarrow> nat \<Rightarrow> world \<Rightarrow> world" where
  "insertChild j v w = w\<lparr>childNodes := take j (childNodes w) @ [v] @ drop j (childNodes w)\<rparr>"

text \<open>
  \<^verbatim>\<open>Panel.addWidget(widget)\<close>, that is \<^verbatim>\<open>this.layout.addWidget(widget)\<close>, for a widget
  that has no other parent. It throws when the layout is \<^verbatim>\<open>null\<close>. A widget that is not
  in the layout is put last and its node attached. A widget that is the last of the layout
  is left alone. Any other widget of the layout is moved to the end, and its node is
  removed from the panel's node, which throws when it is no child, and attached again.
\<close>

definition addWidget :: "nat \<Rightarrow> world \<Rightarrow> js_error option \<times> world" where
  "addWidget widget w =
     (case layout w of
        None \<Rightarrow> (Some TypeError, w)
      | Some ws \<Rightarrow>
          if widget \<notin> set ws
          then (None, insertChild (length ws) widget (w\<lparr>layout := Some (ws @ [widget])\<rparr>))
          else if last ws = widget then (None, w)
          else (case removeChild widget
                       (w\<lparr>layout := Some (filter (\<lambda>x. x \<noteq> widget) ws @ [widget])\<rparr>) of
                  (Some e, w1) \<Rightarrow> (Some e, w1)
                | (None, w1) \<Rightarrow> (None, insertChild (length ws - 1) widget w1)))"

text \<open>
  The layout handles the message \<^verbatim>\<open>child-removed\<close> for \<open>widget\<close> with
  \<^verbatim>\<open>removeWidget(widget)\<close>, that is \<^verbatim>\<open>removeWidgetAt(this._widgets.indexOf(widget))\<close>.
  \<^verbatim>\<open>ArrayExt.removeAt\<close> counts a negative index from the end, so for a widget that is not
  in the layout (index \<open>-1\<close>) the last widget is removed. The node of the removed widget
  is removed from the panel's node; the message loop catches the exception this throws
  when the node is no child and passes it to \<^verbatim>\<open>console.error\<close>.
\<close>

definition detachWidget :: "nat \<Rightarrow> world \<Rightarrow> world" where
  "detachWidget v w =
     (case removeChild v w of
        (Some e, w1) \<Rightarrow> console_error e w1
      | (None, w1) \<Rightarrow> w1)"

definition removeWidget :: "nat \<Rightarrow> world \<Rightarrow> world" where
  "removeWidget widget w =
     (case layout w of
        None \<Rightarrow> w
      | Some ws \<Rightarrow>
          if widget \<in> set ws then detachWidget widget (w\<lparr>layout := Some (remove1 widget ws)\<rparr>)
          else if ws = [] then w
          else detachWidget (last ws) (w\<lparr>layout := Some (butlast ws)\<rparr>))"

subsection \<open>The class\<close>

text \<open>
  The setter \<^verbatim>\<open>manager\<close> (lines 41-44). It connects first and resolves second, so when
  \<^verbatim>\<open>_manager\<close> is \<^verbatim>\<open>null\<close> the connection is made and \<^verbatim>\<open>this._manager.resolve\<close> then
  throws. The result is the exception thrown, if any, and the state.
\<close>

definition set_manager :: "nat \<Rightarrow> world \<Rightarrow> js_error option \<times> world" where
  "set_manager v w =
     (let w1 = connect_restored v w in
      if manager_null w1 then (Some TypeError, w1)
      else (None, w1\<lparr>manager_promise := resolve v (manager_promise w1)\<rparr>))"

text \<open>
  The constructor (lines 30-36), in the surroundings given by \<open>bs\<close>, \<open>hp\<close> and \<open>rs\<close>.
\<close>

definition fresh :: "string \<Rightarrow> (nat \<Rightarrow> (string \<rightharpoonup> nat)) \<Rightarrow> (nat \<Rightarrow> source_obj) \<Rightarrow> (nat \<Rightarrow> bool) \<Rightarrow> world" where
  "fresh mt bs hp rs =
     \<lparr>mimeType = mt, manager_promise = None, manager_null = False,
      rerenderMimeModel = None, textContent = [], childNodes = [], classList = [],
      isHidden = False, layout = Some [], disposed_views = [], restored_slots = [],
      disposed_slots = [], tasks = [], queries = [], console = [], bundles = bs, heap = hp,
      restoredStatus = rs\<rparr>"

definition new_WidgetRenderer ::
  "string \<Rightarrow> nat option \<Rightarrow> (nat \<Rightarrow> (string \<rightharpoonup> nat)) \<Rightarrow> (nat \<Rightarrow> source_obj) \<Rightarrow> (nat \<Rightarrow> bool) \<Rightarrow> world" where
  "new_WidgetRenderer mt manager bs hp rs =
     (case manager of
        None \<Rightarrow> fresh mt bs hp rs
      | Some m \<Rightarrow> snd (set_manager m (fresh mt bs hp rs)))"

text \<open>
  \<^verbatim>\<open>renderModel\<close>, lines 47-53: the part that runs inside the call. The promise the
  call returns is the new last task. Reading \<^verbatim>\<open>this._manager.promise\<close> throws when
  \<^verbatim>\<open>_manager\<close> is \<^verbatim>\<open>null\<close>, and an exception inside an \<^verbatim>\<open>async\<close> function rejects its
  promise.
\<close>

definition renderModel_call :: "nat \<Rightarrow> world \<Rightarrow> world" where
  "renderModel_call model w =
     (let source = bundles w model (mimeType w);
          w1 = addClass ''jupyter-widgets'' (set_textContent ''Loading widget...'' w)
      in w1\<lparr>tasks := tasks w1 @
               [if manager_null w1 then Rejected TypeError else AwaitManager model source]\<rparr>)"

text \<open>
  Lines 53-62: the manager promise is resolved with \<open>manager\<close>. Reading
  \<^verbatim>\<open>source.model_id\<close> throws when \<^verbatim>\<open>source\<close> is \<^verbatim>\<open>undefined\<close> or \<^verbatim>\<open>null\<close>.
\<close>

definition after_manager :: "nat \<Rightarrow> nat \<Rightarrow> nat option \<Rightarrow> nat \<Rightarrow> world \<Rightarrow> world" where
  "after_manager i model source manager w =
     (case source of
        None \<Rightarrow> set_task i (Rejected TypeError) w
      | Some s \<Rightarrow>
          if model_id (heap w s) = [] then set_task i Fulfilled (hide w)
          else set_task i (AwaitGetModel model s manager)
                 (w\<lparr>queries := queries w @ [GetModel manager (model_id (heap w s))]\<rparr>))"

text \<open>
  Lines 62-82: \<^verbatim>\<open>get_model\<close> has failed with \<open>Inl err\<close> or returned the widget model
  \<open>Inr wModel\<close>. \<^verbatim>\<open>manager.restoredStatus\<close> is read in the \<^verbatim>\<open>catch\<close>.
\<close>

definition after_get_model :: "nat \<Rightarrow> nat \<Rightarrow> nat \<Rightarrow> nat \<Rightarrow> js_error + nat \<Rightarrow> world \<Rightarrow> world" where
  "after_get_model i model s manager outcome w =
     (case outcome of
        Inl err \<Rightarrow>
          if restoredStatus w manager
          then set_task i Fulfilled
                 (console_error err
                   (addClass ''jupyter-widgets''
                     (set_textContent ''Error displaying widget: model not found'' w)))
          else set_task i Fulfilled (w\<lparr>rerenderMimeModel := Some model\<rparr>)
      | Inr wModel \<Rightarrow>
          set_task i (AwaitDisplay model s manager)
            (w\<lparr>rerenderMimeModel := None,
               queries := queries w @ [DisplayModel manager wModel]\<rparr>))"

text \<open>
  Lines 82-101: \<^verbatim>\<open>display_model\<close> has failed with \<open>Inl err\<close> or returned the view
  \<open>Inr widget\<close>. An exception of \<^verbatim>\<open>addWidget\<close> (line 92) is outside the \<^verbatim>\<open>try\<close>
  blocks and rejects the promise before line 96 is reached. The arrow function of line 96
  is a new slot at every call.
\<close>

definition after_display :: "nat \<Rightarrow> nat \<Rightarrow> js_error + nat \<Rightarrow> world \<Rightarrow> world" where
  "after_display i s outcome w =
     (case outcome of
        Inl err \<Rightarrow>
          set_task i Fulfilled
            (console_error err
              (addClass ''jupyter-widgets'' (set_textContent ''Error displaying widget'' w)))
      | Inr widget \<Rightarrow>
          (case addWidget widget (set_textContent [] w) of
             (Some e, w1) \<Rightarrow> set_task i (Rejected e) w1
           | (None, w1) \<Rightarrow>
               set_task i Fulfilled
                 (w1\<lparr>disposed_slots := disposed_slots w1 @ [(widget, s)]\<rparr>)))"

text \<open>
  Resuming task \<open>i\<close>. A task suspended on the manager promise resumes once the promise
  is resolved, with its value; a task suspended on a call of the manager resumes with the
  outcome of that call. Each function resumes a task only from its own \<^verbatim>\<open>await\<close>.
\<close>

definition resume_manager :: "nat \<Rightarrow> world \<Rightarrow> world" where
  "resume_manager i w =
     (if i < length (tasks w) then
        (case tasks w ! i of
           AwaitManager model source \<Rightarrow>
             (case manager_promise w of
                None \<Rightarrow> w
              | Some m \<Rightarrow> after_manager i model source m w)
         | _ \<Rightarrow> w)
      else w)"

definition resume_get_model :: "nat \<Rightarrow> js_error + nat \<Rightarrow> world \<Rightarrow> world" where
  "resume_get_model i outcome w =
     (if i < length (tasks w) then
        (case tasks w ! i of
           AwaitGetModel model s m \<Rightarrow> after_get_model i model s m outcome w
         | _ \<Rightarrow> w)
      else w)"

definition resume_display :: "nat \<Rightarrow> js_error + nat \<Rightarrow> world \<Rightarrow> world" where
  "resume_display i outcome w =
     (if i < length (tasks w) then
        (case tasks w ! i of
           AwaitDisplay model s m \<Rightarrow> after_display i s outcome w
         | _ \<Rightarrow> w)
      else w)"

text \<open>
  One whole render with nothing else running in between: the call and its three
  continuations, where \<open>gm\<close> is the outcome of \<^verbatim>\<open>get_model\<close> and \<open>dm\<close> the outcome of
  \<^verbatim>\<open>display_model\<close>, should the render reach them. The promise of the call is task
  \<open>length (tasks w)\<close> of the result.
\<close>

definition renderModel :: "nat \<Rightarrow> js_error + nat \<Rightarrow> js_error + nat \<Rightarrow> world \<Rightarrow> world" where
  "renderModel model gm dm w =
     (let i = length (tasks w) in
      resume_display i dm (resume_get_model i gm (resume_manager i (renderModel_call model w))))"

text \<open>The getter \<^verbatim>\<open>isDisposed\<close> (lines 109-111).\<close>

definition isDisposed :: "world \<Rightarrow> bool" where
  "isDisposed w = manager_null w"

text \<open>
  The closure of lines 96-99, with the \<^verbatim>\<open>source\<close> it captured.
\<close>

definition on_view_disposed :: "nat \<Rightarrow> world \<Rightarrow> world" where
  "on_view_disposed s w =
     (let w1 = hide w in w1\<lparr>heap := (heap w1)(s := (heap w1 s)\<lparr>model_id := []\<rparr>)\<rparr>)"

text \<open>
  The \<^verbatim>\<open>disposed\<close> signal of a view calls the slots connected to it, in connection
  order.
\<close>

definition emit_disposed :: "nat \<Rightarrow> world \<Rightarrow> world" where
  "emit_disposed view w =
     fold (\<lambda>(v, s) acc. if v = view then on_view_disposed s acc else acc) (disposed_slots w) w"

text \<open>\<^verbatim>\<open>Signal.clearData(view)\<close>: the connections of the view's signals are removed.\<close>

definition clear_slots :: "nat \<Rightarrow> world \<Rightarrow> world" where
  "clear_slots view w = w\<lparr>disposed_slots := filter (\<lambda>(v, s). v \<noteq> view) (disposed_slots w)\<rparr>"

text \<open>
  \<^verbatim>\<open>Widget.dispose\<close> of Lumino, called on a view. It does nothing on a view that is
  disposed. Otherwise it emits \<^verbatim>\<open>disposed\<close> and sets the view's parent to \<^verbatim>\<open>null\<close>; when
  the parent is the panel and the panel's \<^verbatim>\<open>isDisposed\<close> is false, the panel receives
  \<^verbatim>\<open>child-removed\<close>, which its layout handles. Last the view's connections are cleared.
\<close>

definition view_disposed :: "nat \<Rightarrow> world \<Rightarrow> world" where
  "view_disposed view w =
     (if view \<in> set (disposed_views w) then w
      else
        (let w1 = emit_disposed view (w\<lparr>disposed_views := disposed_views w @ [view]\<rparr>);
             w2 = (if view \<in> set (widgets w1) \<and> \<not> isDisposed w1 then removeWidget view w1
                   else w1)
         in clear_slots view w2))"

text \<open>
  \<^verbatim>\<open>PanelLayout.dispose\<close>: while the layout has widgets, it pops the last one and
  disposes it. The argument lists the widgets left, last first. The widget popped, \<open>u\<close>,
  has the panel as parent but is no longer in the layout, so when the panel receives
  \<^verbatim>\<open>child-removed\<close> for it (its \<^verbatim>\<open>isDisposed\<close> is the getter of this class, still false
  during \<^verbatim>\<open>super.dispose()\<close>), the layout removes the next widget \<open>x\<close> instead, which is
  never disposed.
\<close>

fun dispose_widgets :: "nat list \<Rightarrow> world \<Rightarrow> world" where
  "dispose_widgets [] w = w"
| "dispose_widgets [u] w =
     (if u \<in> set (disposed_views w) then w
      else clear_slots u (emit_disposed u (w\<lparr>disposed_views := disposed_views w @ [u]\<rparr>)))"
| "dispose_widgets (u # x # rest) w =
     (if u \<in> set (disposed_views w) then dispose_widgets (x # rest) w
      else
        (let w1 = emit_disposed u (w\<lparr>disposed_views := disposed_views w @ [u]\<rparr>) in
         if isDisposed w1 then dispose_widgets (x # rest) (clear_slots u w1)
         else dispose_widgets rest (clear_slots u (detachWidget x w1))))"

text \<open>
  \<^verbatim>\<open>super.dispose()\<close> (line 120), the \<^verbatim>\<open>dispose\<close> of a Lumino panel: the layout is
  disposed and becomes \<^verbatim>\<open>null\<close>, and the connections in which the panel is the receiver
  are cleared.
\<close>

definition super_dispose :: "world \<Rightarrow> world" where
  "super_dispose w =
     (let w1 = dispose_widgets (rev (widgets w)) w
      in w1\<lparr>layout := None, restored_slots := []\<rparr>)"

text \<open>\<^verbatim>\<open>dispose\<close> (lines 116-122).\<close>

definition dispose :: "world \<Rightarrow> world" where
  "dispose w = (if isDisposed w then w else (super_dispose w)\<lparr>manager_null := True\<rparr>)"

text \<open>
  \<^verbatim>\<open>_rerender\<close> (lines 124-133). The call of \<^verbatim>\<open>renderModel\<close> is not awaited: its
  first segment runs inside \<^verbatim>\<open>_rerender\<close>, and the task stays suspended.
\<close>

definition rerender :: "world \<Rightarrow> world" where
  "rerender w =
     (case rerenderMimeModel w of
        None \<Rightarrow> w
      | Some model \<Rightarrow>
          renderModel_call model (removeClass ''jupyter-widgets'' (set_textContent [] w)))"

text \<open>
  The \<^verbatim>\<open>restored\<close> signal of manager \<open>m\<close> fires: \<^verbatim>\<open>_rerender\<close> is called if the signal
  is connected to this renderer.
\<close>

definition restored_emit :: "nat \<Rightarrow> world \<Rightarrow> world" where
  "restored_emit m w = (if m \<in> set (restored_slots w) then rerender w else w)"

subsection \<open>Everything that can happen to a renderer\<close>

datatype event =
    SetManager nat
  | RenderModel nat
  | ManagerReady nat
  | GetModelSettled nat "js_error + nat"
  | DisplaySettled nat "js_error + nat"
  | Dispose
  | Restored nat
  | ViewDisposed nat
  | SetRestoredStatus nat bool

fun step :: "event \<Rightarrow> world \<Rightarrow> world" where
  "step (SetManager v) w = snd (set_manager v w)"
| "step (RenderModel model) w = renderModel_call model w"
| "step (ManagerReady i) w = resume_manager i w"
| "step (GetModelSettled i outcome) w = resume_get_model i outcome w"
| "step (DisplaySettled i outcome) w = resume_display i outcome w"
| "step Dispose w = dispose w"
| "step (Restored m) w = restored_emit m w"
| "step (ViewDisposed v) w = view_disposed v w"
| "step (SetRestoredStatus m b) w = w\<lparr>restoredStatus := (restoredStatus w)(m := b)\<rparr>"

definition run :: "event list \<Rightarrow> world \<Rightarrow> world" where
  "run evs w = fold step evs w"

subsection \<open>A concrete renderer\<close>

text \<open>
  The mime type of widget views; mime models whose \<^verbatim>\<open>data\<close> holds one payload under it
  (model \<open>b\<close> holds payload \<open>b\<close>), apart from model \<open>1\<close>, whose \<^verbatim>\<open>data\<close> is empty;
  payloads with the model id \<^verbatim>\<open>m1\<close>, apart from payload \<open>2\<close>, whose model id is empty;
  managers that have not finished restoring; and a renderer constructed with manager \<open>0\<close>.
\<close>

definition widget_mime :: string where
  "widget_mime = ''application/vnd.jupyter.widget-view+json''"

definition demo_bundles :: "nat \<Rightarrow> (string \<rightharpoonup> nat)" where
  "demo_bundles b = (if b = 1 then Map.empty else [widget_mime \<mapsto> b])"

definition demo_heap :: "nat \<Rightarrow> source_obj" where
  "demo_heap a = \<lparr>model_id = (if a = 2 then [] else ''m1'')\<rparr>"

definition demo_status :: "nat \<Rightarrow> bool" where
  "demo_status m = False"

definition demo_renderer :: world where
  "demo_renderer = new_WidgetRenderer widget_mime (Some 0) demo_bundles demo_heap demo_status"

subsection \<open>A renderer that has not been disposed\<close>

text \<open>
  What holds of a renderer as long as \<^verbatim>\<open>dispose\<close> has not run: \<^verbatim>\<open>_manager\<close> is not
  \<^verbatim>\<open>null\<close>, the panel has its layout, and the manager the promise was resolved with has
  its \<^verbatim>\<open>restored\<close> signal connected.
\<close>

definition intact :: "world \<Rightarrow> bool" where
  "intact w =
     (\<not> manager_null w \<and> layout w \<noteq> None \<and>
      (case manager_promise w of None \<Rightarrow> True | Some m \<Rightarrow> m \<in> set (restored_slots w)))"

subsection \<open>Renders that cannot be rejected\<close>

text \<open>
  A task that is not rejected and whose mime model holds a payload object under the
  renderer's mime type.
\<close>

definition task_ok :: "world \<Rightarrow> task \<Rightarrow> bool" where
  "task_ok w t =
     (case t of
        AwaitManager model source \<Rightarrow> source \<noteq> None \<and> source = bundles w model (mimeType w)
      | AwaitGetModel model s m \<Rightarrow> bundles w model (mimeType w) \<noteq> None
      | AwaitDisplay model s m \<Rightarrow> True
      | Fulfilled \<Rightarrow> True
      | Rejected e \<Rightarrow> False)"

definition sound :: "world \<Rightarrow> bool" where
  "sound w =
     (\<not> manager_null w \<and> layout w \<noteq> None \<and> list_all (task_ok w) (tasks w) \<and>
      (case rerenderMimeModel w of None \<Rightarrow> True | Some b \<Rightarrow> bundles w b (mimeType w) \<noteq> None))"

text \<open>
  The events after which no render is rejected: \<^verbatim>\<open>dispose\<close> is not called, the mime
  models rendered hold a payload object under the renderer's mime type, and
  \<^verbatim>\<open>display_model\<close> returns views that are not in the layout.
\<close>

fun admissible :: "event \<Rightarrow> world \<Rightarrow> bool" where
  "admissible Dispose w = False"
| "admissible (RenderModel model) w = (bundles w model (mimeType w) \<noteq> None)"
| "admissible (DisplaySettled i (Inr widget)) w = (widget \<notin> set (widgets w))"
| "admissible e w = True"

fun admissible_run :: "event list \<Rightarrow> world \<Rightarrow> bool" where
  "admissible_run [] w = True"
| "admissible_run (e # es) w = (admissible e w \<and> admissible_run es (step e w))"

section \<open>Auxiliary facts\<close>

lemmas lumino_defs = set_textContent_def addClass_def removeClass_def hasClass_def hide_def
  connect_restored_def resolve_def console_error_def set_task_def

lemmas layout_defs = widgets_def removeChild_def insertChild_def addWidget_def
  detachWidget_def removeWidget_def clear_slots_def

lemmas segment_defs = renderModel_call_def after_manager_def after_get_model_def
  after_display_def resume_manager_def resume_get_model_def resume_display_def

subsection \<open>Disposal of a view\<close>

lemma emit_disposed_eq:
  "emit_disposed view w =
     w\<lparr>isHidden := isHidden w \<or> view \<in> fst ` set (disposed_slots w),
       heap := fold (\<lambda>(v, s) h. if v = view then h(s := (h s)\<lparr>model_id := []\<rparr>) else h)
                 (disposed_slots w) (heap w)\<rparr>"
proof -
  have "fold (\<lambda>(v, s) acc. if v = view then on_view_disposed s acc else acc) xs w =
     w\<lparr>isHidden := isHidden w \<or> view \<in> fst ` set xs,
       heap := fold (\<lambda>(v, s) h. if v = view then h(s := (h s)\<lparr>model_id := []\<rparr>) else h) xs (heap w)\<rparr>"
    for xs
  proof (induction xs arbitrary: w)
    case Nil
    show ?case by simp
  next
    case (Cons x xs)
    obtain v s where x: "x = (v, s)" by (cases x)
    show ?case
      by (simp add: x Cons.IH on_view_disposed_def hide_def Let_def)
  qed
  then show ?thesis by (simp add: emit_disposed_def)
qed

lemma view_disposed_frame:
  "manager_null (view_disposed v w) = manager_null w"
  "manager_promise (view_disposed v w) = manager_promise w"
  "rerenderMimeModel (view_disposed v w) = rerenderMimeModel w"
  "tasks (view_disposed v w) = tasks w"
  "queries (view_disposed v w) = queries w"
  "bundles (view_disposed v w) = bundles w"
  "mimeType (view_disposed v w) = mimeType w"
  "restored_slots (view_disposed v w) = restored_slots w"
  "(layout (view_disposed v w) = None) = (layout w = None)"
  by (auto simp: view_disposed_def emit_disposed_eq isDisposed_def layout_defs lumino_defs Let_def
      split: option.splits)

subsection \<open>Only \<open>dispose\<close> overwrites the manager field\<close>

lemma manager_null_step: "manager_null (step e w) = (manager_null w \<or> e = Dispose)"
  by (cases e)
     (auto simp: set_manager_def dispose_def isDisposed_def restored_emit_def rerender_def
        view_disposed_frame segment_defs layout_defs lumino_defs Let_def
        split: task.splits option.splits sum.splits prod.splits)

lemma manager_null_fold: "manager_null (fold step evs w) = (manager_null w \<or> Dispose \<in> set evs)"
  by (induction evs arbitrary: w) (auto simp: manager_null_step)

lemma manager_null_new: "\<not> manager_null (new_WidgetRenderer mt manager bs hp rs)"
  by (simp add: new_WidgetRenderer_def fresh_def set_manager_def lumino_defs Let_def
      split: option.splits)

subsection \<open>Every event but \<open>Dispose\<close> keeps a renderer intact\<close>

lemma intact_new: "intact (new_WidgetRenderer mt manager bs hp rs)"
  by (simp add: intact_def new_WidgetRenderer_def fresh_def set_manager_def lumino_defs Let_def
      split: option.splits)

lemma intact_set_manager: "intact w \<Longrightarrow> intact (snd (set_manager v w))"
  by (auto simp: intact_def set_manager_def lumino_defs Let_def split: option.splits)

lemma intact_renderModel_call: "intact w \<Longrightarrow> intact (renderModel_call model w)"
  by (auto simp: intact_def renderModel_call_def lumino_defs Let_def split: option.splits)

lemma intact_resume_manager: "intact w \<Longrightarrow> intact (resume_manager i w)"
  by (auto simp: intact_def resume_manager_def after_manager_def lumino_defs Let_def
      split: task.splits option.splits)

lemma intact_resume_get_model: "intact w \<Longrightarrow> intact (resume_get_model i outcome w)"
  by (auto simp: intact_def resume_get_model_def after_get_model_def lumino_defs Let_def
      split: task.splits option.splits sum.splits)

lemma intact_resume_display: "intact w \<Longrightarrow> intact (resume_display i outcome w)"
  by (auto simp: intact_def resume_display_def after_display_def layout_defs lumino_defs Let_def
      split: task.splits option.splits sum.splits prod.splits if_splits)

lemma intact_restored_emit: "intact w \<Longrightarrow> intact (restored_emit m w)"
  by (auto simp: intact_def restored_emit_def rerender_def renderModel_call_def lumino_defs Let_def
      split: option.splits)

lemma intact_view_disposed: "intact w \<Longrightarrow> intact (view_disposed v w)"
  by (auto simp: intact_def view_disposed_frame split: option.splits)

lemma intact_step: "intact w \<Longrightarrow> e \<noteq> Dispose \<Longrightarrow> intact (step e w)"
proof (cases e)
  case (SetRestoredStatus m b)
  assume "intact w"
  then show ?thesis by (auto simp: SetRestoredStatus intact_def split: option.splits)
qed (simp_all add: intact_set_manager intact_renderModel_call intact_resume_manager
      intact_resume_get_model intact_resume_display intact_restored_emit intact_view_disposed)

lemma intact_fold: "intact w \<Longrightarrow> Dispose \<notin> set evs \<Longrightarrow> intact (fold step evs w)"
  by (induction evs arbitrary: w) (auto simp: intact_step)

lemma intact_run:
  "Dispose \<notin> set evs \<Longrightarrow> intact (run evs (new_WidgetRenderer mt manager bs hp rs))"
  by (simp add: run_def intact_fold intact_new)

subsection \<open>Admissible events keep a renderer sound\<close>

lemma list_all_update: "list_all P xs \<Longrightarrow> P t \<Longrightarrow> list_all P (xs[i := t])"
  by (auto simp: list_all_iff dest: set_update_subset_insert [THEN subsetD])

lemma task_ok_frame:
  "bundles w' = bundles w \<Longrightarrow> mimeType w' = mimeType w \<Longrightarrow> task_ok w' = task_ok w"
  by (rule ext) (simp add: task_ok_def split: task.splits)

lemma sound_iff:
  "sound w \<longleftrightarrow>
     \<not> manager_null w \<and> layout w \<noteq> None \<and> list_all (task_ok w) (tasks w) \<and>
     (\<forall>b. rerenderMimeModel w = Some b \<longrightarrow> bundles w b (mimeType w) \<noteq> None)"
  by (auto simp: sound_def split: option.splits)

lemma sound_new: "sound (new_WidgetRenderer mt manager bs hp rs)"
  by (simp add: sound_iff new_WidgetRenderer_def fresh_def set_manager_def lumino_defs Let_def
      split: option.splits)

lemma sound_set_manager: "sound w \<Longrightarrow> sound (snd (set_manager v w))"
proof -
  assume s: "sound w"
  have "task_ok (snd (set_manager v w)) = task_ok w"
    by (rule task_ok_frame) (simp_all add: set_manager_def lumino_defs Let_def)
  then show ?thesis
    using s by (simp add: sound_iff set_manager_def lumino_defs Let_def)
qed

lemma sound_renderModel_call:
  assumes "sound w" "bundles w model (mimeType w) \<noteq> None"
  shows "sound (renderModel_call model w)"
proof -
  have "task_ok (renderModel_call model w) = task_ok w"
    by (rule task_ok_frame) (simp_all add: renderModel_call_def lumino_defs Let_def)
  then show ?thesis
    using assms
    by (simp add: sound_iff renderModel_call_def lumino_defs Let_def)
       (simp add: task_ok_def)
qed

lemma sound_resume_manager: "sound w \<Longrightarrow> sound (resume_manager i w)"
proof -
  assume s: "sound w"
  have fr: "task_ok (resume_manager i w) = task_ok w"
    by (rule task_ok_frame)
       (simp_all add: resume_manager_def after_manager_def lumino_defs
          split: task.splits option.splits)
  show ?thesis
  proof (cases "i < length (tasks w)")
    case False
    then show ?thesis using s by (simp add: resume_manager_def)
  next
    case True
    then have ok: "task_ok w (tasks w ! i)"
      using s by (simp add: sound_iff list_all_length)
    show ?thesis
    proof (cases "tasks w ! i")
      case (AwaitManager model source)
      show ?thesis
      proof (cases "manager_promise w")
        case None
        then show ?thesis using s True AwaitManager by (simp add: resume_manager_def)
      next
        case (Some m)
        obtain sa where src: "source = Some sa" "bundles w model (mimeType w) = Some sa"
          using ok AwaitManager by (auto simp: task_ok_def)
        have "list_all (task_ok w) (tasks (resume_manager i w))"
          using s True AwaitManager Some src
          by (auto simp: sound_iff resume_manager_def after_manager_def lumino_defs task_ok_def
              intro!: list_all_update)
        then show ?thesis
          using s True AwaitManager Some src fr
          by (auto simp: sound_iff resume_manager_def after_manager_def lumino_defs)
      qed
    qed (use s True in \<open>simp_all add: resume_manager_def\<close>)
  qed
qed

lemma sound_resume_get_model: "sound w \<Longrightarrow> sound (resume_get_model i outcome w)"
proof -
  assume s: "sound w"
  have fr: "task_ok (resume_get_model i outcome w) = task_ok w"
    by (rule task_ok_frame)
       (simp_all add: resume_get_model_def after_get_model_def lumino_defs
          split: task.splits sum.splits)
  show ?thesis
  proof (cases "i < length (tasks w)")
    case False
    then show ?thesis using s by (simp add: resume_get_model_def)
  next
    case True
    then have ok: "task_ok w (tasks w ! i)"
      using s by (simp add: sound_iff list_all_length)
    show ?thesis
    proof (cases "tasks w ! i")
      case (AwaitGetModel model sa m)
      have b: "bundles w model (mimeType w) \<noteq> None"
        using ok AwaitGetModel by (simp add: task_ok_def)
      have "list_all (task_ok w) (tasks (resume_get_model i outcome w))"
        using s True AwaitGetModel
        by (auto simp: sound_iff resume_get_model_def after_get_model_def lumino_defs task_ok_def
            intro!: list_all_update split: sum.splits)
      then show ?thesis
        using s True AwaitGetModel b fr
        by (auto simp: sound_iff resume_get_model_def after_get_model_def lumino_defs
            split: sum.splits)
    qed (use s True in \<open>simp_all add: resume_get_model_def\<close>)
  qed
qed

lemma sound_resume_display:
  assumes "sound w" "case outcome of Inl err \<Rightarrow> True | Inr widget \<Rightarrow> widget \<notin> set (widgets w)"
  shows "sound (resume_display i outcome w)"
proof -
  have fr: "task_ok (resume_display i outcome w) = task_ok w"
    by (rule task_ok_frame)
       (simp_all add: resume_display_def after_display_def layout_defs lumino_defs
          split: task.splits sum.splits option.splits prod.splits)
  show ?thesis
  proof (cases "i < length (tasks w)")
    case False
    then show ?thesis using assms(1) by (simp add: resume_display_def)
  next
    case True
    show ?thesis
    proof (cases "tasks w ! i")
      case (AwaitDisplay model sa m)
      obtain ws where ws: "layout w = Some ws" using assms(1) by (auto simp: sound_iff)
      have "list_all (task_ok w) (tasks (resume_display i outcome w))"
        using assms True AwaitDisplay ws
        by (auto simp: sound_iff resume_display_def after_display_def layout_defs lumino_defs
            task_ok_def intro!: list_all_update split: sum.splits)
      then show ?thesis
        using assms True AwaitDisplay ws fr
        by (auto simp: sound_iff resume_display_def after_display_def layout_defs lumino_defs
            split: sum.splits)
    qed (use assms(1) True in \<open>simp_all add: resume_display_def\<close>)
  qed
qed

lemma sound_restored_emit: "sound w \<Longrightarrow> sound (restored_emit m w)"
proof -
  assume s: "sound w"
  show ?thesis
  proof (cases "m \<in> set (restored_slots w) \<and> rerenderMimeModel w \<noteq> None")
    case False
    then show ?thesis using s by (auto simp: restored_emit_def rerender_def)
  next
    case True
    then obtain b where b: "rerenderMimeModel w = Some b" by auto
    let ?w1 = "removeClass ''jupyter-widgets'' (set_textContent [] w)"
    have fr: "task_ok ?w1 = task_ok w"
      by (rule task_ok_frame) (simp_all add: lumino_defs)
    have "sound ?w1" using s fr by (simp add: sound_iff lumino_defs)
    moreover have "bundles ?w1 b (mimeType ?w1) \<noteq> None"
      using s b by (simp add: sound_iff lumino_defs)
    ultimately have "sound (renderModel_call b ?w1)" by (rule sound_renderModel_call)
    then show ?thesis using True b by (simp add: restored_emit_def rerender_def)
  qed
qed

lemma sound_view_disposed: "sound w \<Longrightarrow> sound (view_disposed v w)"
proof -
  assume s: "sound w"
  have "task_ok (view_disposed v w) = task_ok w"
    by (rule task_ok_frame) (simp_all add: view_disposed_frame)
  then show ?thesis using s by (simp add: sound_iff view_disposed_frame)
qed

lemma sound_step: "sound w \<Longrightarrow> admissible e w \<Longrightarrow> sound (step e w)"
proof (cases e)
  case (SetRestoredStatus m b)
  assume s: "sound w"
  have "task_ok (w\<lparr>restoredStatus := (restoredStatus w)(m := b)\<rparr>) = task_ok w"
    by (rule task_ok_frame) simp_all
  then show ?thesis using s by (simp add: SetRestoredStatus sound_iff)
next
  case (DisplaySettled i outcome)
  assume "sound w" "admissible e w"
  then show ?thesis
    by (cases outcome) (simp_all add: DisplaySettled sound_resume_display)
qed (simp_all add: sound_set_manager sound_renderModel_call sound_resume_manager
      sound_resume_get_model sound_restored_emit sound_view_disposed)

lemma sound_fold: "sound w \<Longrightarrow> admissible_run evs w \<Longrightarrow> sound (fold step evs w)"
  by (induction evs arbitrary: w) (auto simp: sound_step)

lemma sound_run:
  "admissible_run evs (new_WidgetRenderer mt manager bs hp rs) \<Longrightarrow>
   sound (run evs (new_WidgetRenderer mt manager bs hp rs))"
  by (simp add: run_def sound_fold sound_new)

lemma sound_not_rejected: "sound w \<Longrightarrow> Rejected e \<notin> set (tasks w)"
  by (auto simp: sound_iff list_all_iff task_ok_def)

subsection \<open>The first two segments of a render\<close>

lemma render_prefix:
  assumes "\<not> manager_null w" "manager_promise w = Some m"
    "bundles w model (mimeType w) = Some s"
  shows "resume_manager (length (tasks w)) (renderModel_call model w) =
     (if model_id (heap w s) = []
      then (hide (addClass ''jupyter-widgets'' (set_textContent ''Loading widget...'' w)))
             \<lparr>tasks := tasks w @ [Fulfilled]\<rparr>
      else (addClass ''jupyter-widgets'' (set_textContent ''Loading widget...'' w))
             \<lparr>tasks := tasks w @ [AwaitGetModel model s m],
              queries := queries w @ [GetModel m (model_id (heap w s))]\<rparr>)"
  using assms by (simp add: segment_defs lumino_defs Let_def)

lemma render_get_model:
  assumes "\<not> manager_null w" "manager_promise w = Some m"
    "bundles w model (mimeType w) = Some s" "model_id (heap w s) \<noteq> []"
  shows "resume_get_model (length (tasks w)) gm
           (resume_manager (length (tasks w)) (renderModel_call model w)) =
         after_get_model (length (tasks w)) model s m gm
           ((addClass ''jupyter-widgets'' (set_textContent ''Loading widget...'' w))
             \<lparr>tasks := tasks w @ [AwaitGetModel model s m],
              queries := queries w @ [GetModel m (model_id (heap w s))]\<rparr>)"
  using assms by (simp add: render_prefix resume_get_model_def lumino_defs)

subsection \<open>Whole renders\<close>



lemma restored_noop: "rerenderMimeModel w = None \<Longrightarrow> fold restored_emit ms w = w"
  by (induction ms) (simp_all add: restored_emit_def rerender_def)

subsection \<open>The concrete renderer\<close>

lemma demo_renderer_eq:
  "demo_renderer =
     \<lparr>mimeType = widget_mime, manager_promise = Some 0, manager_null = False,
      rerenderMimeModel = None, textContent = [], childNodes = [], classList = [],
      isHidden = False, layout = Some [], disposed_views = [], restored_slots = [0],
      disposed_slots = [], tasks = [], queries = [], console = [], bundles = demo_bundles,
      heap = demo_heap, restoredStatus = demo_status\<rparr>"
  by (simp add: demo_renderer_def new_WidgetRenderer_def fresh_def set_manager_def lumino_defs
      Let_def)

lemma demo_renderer_run: "demo_renderer = run [] (new_WidgetRenderer widget_mime (Some 0) demo_bundles demo_heap demo_status)"
  by (simp add: demo_renderer_def run_def)

lemmas demo_simps = demo_renderer_eq demo_bundles_def demo_heap_def demo_status_def

section \<open>The claims\<close>

subsection \<open>C1: a render never rejects\<close>

text \<open>
  Claim C1 says that \<^verbatim>\<open>renderModel\<close> completes and never rejects, also when the bundle's
  data has no entry under the renderer's mime type and when it is called after
  \<^verbatim>\<open>dispose\<close>. The code reads \<^verbatim>\<open>source.model_id\<close> (line 55) and
  \<^verbatim>\<open>this._manager.promise\<close> (line 53) and calls \<^verbatim>\<open>addWidget\<close> (line 92) outside its two
  \<^verbatim>\<open>try\<close> blocks. Below, on the renderer constructed with manager \<open>0\<close>: the render of
  model \<open>1\<close>, which has no entry, is rejected; the render of model \<open>0\<close>, which has one, is
  rejected when called after \<^verbatim>\<open>dispose\<close>, and when \<^verbatim>\<open>dispose\<close> runs while it waits for
  \<^verbatim>\<open>display_model\<close>; after two renders have attached the views \<open>6\<close> and \<open>7\<close>, a third one
  for which \<^verbatim>\<open>display_model\<close> returns view \<open>6\<close> again is rejected. On a renderer
  constructed without a manager the render stays suspended.
\<close>

theorem C1_rejects_counterexample:
  "\<not> isDisposed demo_renderer
   \<and> bundles demo_renderer 1 (mimeType demo_renderer) = None
   \<and> tasks (renderModel 1 (Inr 0) (Inr 0) demo_renderer) ! 0 = Rejected TypeError
   \<and> bundles demo_renderer 0 (mimeType demo_renderer) = Some 0
   \<and> isDisposed (dispose demo_renderer)
   \<and> tasks (renderModel 0 (Inr 0) (Inr 0) (dispose demo_renderer)) ! 0 = Rejected TypeError
   \<and> tasks (run [RenderModel 0, ManagerReady 0, GetModelSettled 0 (Inr 5), Dispose,
                 DisplaySettled 0 (Inr 6)] demo_renderer) ! 0 = Rejected TypeError
   \<and> tasks (renderModel 0 (Inr 5) (Inr 6)
              (renderModel 0 (Inr 5) (Inr 7)
                (renderModel 0 (Inr 5) (Inr 6) demo_renderer))) ! 2 = Rejected NotFoundError
   \<and> tasks (renderModel 0 (Inr 5) (Inr 6)
              (new_WidgetRenderer widget_mime None demo_bundles demo_heap demo_status)) ! 0 =
       AwaitManager 0 (Some 0)"
  by (simp add: demo_simps renderModel_def run_def segment_defs dispose_def super_dispose_def
      isDisposed_def new_WidgetRenderer_def fresh_def layout_defs lumino_defs Let_def)

text \<open>
  Claim C1, amended: as long as \<^verbatim>\<open>dispose\<close> has not been called, the mime models
  rendered hold a payload object under the renderer's mime type, and \<^verbatim>\<open>display_model\<close>
  does not return a view that is already in the panel's layout, no call of
  \<^verbatim>\<open>renderModel\<close> is rejected, however the calls, their continuations and the other
  events are interleaved. Once the manager is bound, a render that runs with nothing in
  between is fulfilled whatever \<^verbatim>\<open>get_model\<close> and \<^verbatim>\<open>display_model\<close> do; a failure of
  \<^verbatim>\<open>get_model\<close> after restoration and a failure of \<^verbatim>\<open>display_model\<close> are reported with
  \<^verbatim>\<open>console.error\<close> and nothing else is.
\<close>

theorem C1_renderModel_never_rejects:
  assumes "admissible_run evs (new_WidgetRenderer mt manager bs hp rs)"
    and "w = run evs (new_WidgetRenderer mt manager bs hp rs)"
  shows "Rejected e \<notin> set (tasks w)
       \<and> (manager_promise w = Some m \<and> bundles w model (mimeType w) = Some s
            \<and> (case dm of Inl err \<Rightarrow> True | Inr widget \<Rightarrow> widget \<notin> set (widgets w))
          \<longrightarrow> tasks (renderModel model gm dm w) ! length (tasks w) = Fulfilled
              \<and> console (renderModel model gm dm w) = console w @
                  (if model_id (heap w s) = [] then []
                   else case gm of
                          Inl err \<Rightarrow> if restoredStatus w m then [err] else []
                        | Inr wModel \<Rightarrow> (case dm of Inl err \<Rightarrow> [err] | Inr widget \<Rightarrow> [])))"
proof -
  have snd: "sound w" using assms by (simp add: sound_run)
  then obtain ws where live: "\<not> manager_null w" "layout w = Some ws"
    by (auto simp: sound_def)
  have never: "Rejected e \<notin> set (tasks w)" using snd by (rule sound_not_rejected)
  have "tasks (renderModel model gm dm w) ! length (tasks w) = Fulfilled
      \<and> console (renderModel model gm dm w) = console w @
          (if model_id (heap w s) = [] then []
           else case gm of
                  Inl err \<Rightarrow> if restoredStatus w m then [err] else []
                | Inr wModel \<Rightarrow> (case dm of Inl err \<Rightarrow> [err] | Inr widget \<Rightarrow> []))"
    if bound: "manager_promise w = Some m" and entry: "bundles w model (mimeType w) = Some s"
      and new: "case dm of Inl err \<Rightarrow> True | Inr widget \<Rightarrow> widget \<notin> set (widgets w)"
  proof (cases "model_id (heap w s) = []")
    case True
    then show ?thesis
      using live(1) bound entry
      by (simp add: renderModel_def render_prefix resume_get_model_def resume_display_def
          lumino_defs Let_def)
  next
    case False
    then show ?thesis
      using live bound entry new
      by (auto simp: renderModel_def render_get_model after_get_model_def resume_display_def
          after_display_def layout_defs lumino_defs Let_def split: sum.splits)
  qed
  then show ?thesis using never by blast
qed

theorem C1_renderModel_never_rejects_witness:
  "admissible_run [RenderModel 0, ManagerReady 0, GetModelSettled 0 (Inr 5),
                   DisplaySettled 0 (Inr 6), RenderModel 0]
     (new_WidgetRenderer widget_mime (Some 0) demo_bundles demo_heap demo_status)
   \<and> Rejected TypeError \<notin> set (tasks
       (run [RenderModel 0, ManagerReady 0, GetModelSettled 0 (Inr 5),
             DisplaySettled 0 (Inr 6), RenderModel 0]
          (new_WidgetRenderer widget_mime (Some 0) demo_bundles demo_heap demo_status)))
   \<and> manager_promise demo_renderer = Some 0
   \<and> bundles demo_renderer 0 (mimeType demo_renderer) = Some 0
   \<and> 6 \<notin> set (widgets demo_renderer)
   \<and> tasks (renderModel 0 (Inr 5) (Inr 6) demo_renderer) ! length (tasks demo_renderer) =
       Fulfilled"
proof -
  have a: "admissible_run [RenderModel 0, ManagerReady 0, GetModelSettled 0 (Inr 5),
                   DisplaySettled 0 (Inr 6), RenderModel 0]
     (new_WidgetRenderer widget_mime (Some 0) demo_bundles demo_heap demo_status)"
    by (simp add: demo_simps demo_renderer_def [symmetric] segment_defs layout_defs lumino_defs
        Let_def)
  have a0: "admissible_run [] (new_WidgetRenderer widget_mime (Some 0) demo_bundles demo_heap demo_status)"
    by simp
  have h3: "manager_promise demo_renderer = Some 0" by (simp add: demo_simps)
  have h4: "bundles demo_renderer 0 (mimeType demo_renderer) = Some 0" by (simp add: demo_simps)
  have h5: "6 \<notin> set (widgets demo_renderer)" by (simp add: demo_simps widgets_def)
  have h5': "case (Inr 6 :: js_error + nat) of Inl err \<Rightarrow> True
             | Inr widget \<Rightarrow> widget \<notin> set (widgets demo_renderer)"
    using h5 by simp
  note c1 = C1_renderModel_never_rejects [OF a refl, where e = TypeError, THEN conjunct1]
  note c2 = C1_renderModel_never_rejects [OF a0 demo_renderer_run, where m = 0 and model = 0
      and s = 0 and gm = "Inr 5" and dm = "Inr 6", THEN conjunct2, rule_format,
      OF conjI [OF h3 conjI [OF h4 h5']], THEN conjunct1]
  show ?thesis using a c1 h3 h4 h5 c2 by blast
qed

subsection \<open>C4 and C10: a bundle with an empty model id\<close>

text \<open>
  Claim C4: on a renderer that has not been disposed and whose manager is bound, the render
  of a bundle whose \<^verbatim>\<open>model_id\<close> is the empty string is fulfilled, hides the container,
  and calls neither \<^verbatim>\<open>get_model\<close> nor \<^verbatim>\<open>display_model\<close>.
\<close>

theorem C4_empty_id_hides_without_queries:
  assumes "\<not> isDisposed w" and "manager_promise w = Some m"
    and "bundles w model (mimeType w) = Some s" and "model_id (heap w s) = []"
  shows "tasks (renderModel model gm dm w) ! length (tasks w) = Fulfilled
       \<and> isHidden (renderModel model gm dm w)
       \<and> queries (renderModel model gm dm w) = queries w"
  using assms
  by (simp add: renderModel_def isDisposed_def render_prefix resume_get_model_def
      resume_display_def lumino_defs Let_def)

theorem C4_empty_id_hides_without_queries_witness:
  "\<not> isDisposed demo_renderer
   \<and> manager_promise demo_renderer = Some 0
   \<and> bundles demo_renderer 2 (mimeType demo_renderer) = Some 2
   \<and> model_id (heap demo_renderer 2) = []
   \<and> tasks (renderModel 2 (Inr 5) (Inr 6) demo_renderer) ! 0 = Fulfilled
   \<and> isHidden (renderModel 2 (Inr 5) (Inr 6) demo_renderer)
   \<and> queries (renderModel 2 (Inr 5) (Inr 6) demo_renderer) = []"
proof -
  have h1: "\<not> isDisposed demo_renderer" by (simp add: demo_renderer_eq isDisposed_def)
  have h2: "manager_promise demo_renderer = Some 0" by (simp add: demo_renderer_eq)
  have h3: "bundles demo_renderer 2 (mimeType demo_renderer) = Some 2"
    by (simp add: demo_renderer_eq demo_bundles_def)
  have h4: "model_id (heap demo_renderer 2) = []" by (simp add: demo_renderer_eq demo_heap_def)
  have h5: "tasks demo_renderer = []" "queries demo_renderer = []"
    by (simp_all add: demo_renderer_eq)
  show ?thesis
    using C4_empty_id_hides_without_queries [OF h1 h2 h3 h4, of "Inr 5" "Inr 6"] h1 h2 h3 h4 h5
    by simp
qed

text \<open>
  Claim C10: after that render the text of the container is still
  \<^verbatim>\<open>Loading widget...\<close> and the class \<^verbatim>\<open>jupyter-widgets\<close> is still present: beyond what
  the call itself had set, the render has only hidden the container and settled its
  promise.
\<close>

theorem C10_empty_id_keeps_placeholder:
  assumes "\<not> isDisposed w" and "manager_promise w = Some m"
    and "bundles w model (mimeType w) = Some s" and "model_id (heap w s) = []"
  shows "textContent (renderModel model gm dm w) = ''Loading widget...''
       \<and> hasClass ''jupyter-widgets'' (renderModel model gm dm w)
       \<and> renderModel model gm dm w =
           (renderModel_call model w)\<lparr>isHidden := True, tasks := tasks w @ [Fulfilled]\<rparr>"
proof -
  have "renderModel model gm dm w =
      (hide (addClass ''jupyter-widgets'' (set_textContent ''Loading widget...'' w)))
             \<lparr>tasks := tasks w @ [Fulfilled]\<rparr>"
    using assms
    by (simp add: renderModel_def isDisposed_def render_prefix resume_get_model_def
        resume_display_def lumino_defs Let_def)
  then show ?thesis
    using assms by (simp add: renderModel_call_def isDisposed_def lumino_defs Let_def)
qed

theorem C10_empty_id_keeps_placeholder_witness:
  "\<not> isDisposed demo_renderer
   \<and> manager_promise demo_renderer = Some 0
   \<and> bundles demo_renderer 2 (mimeType demo_renderer) = Some 2
   \<and> model_id (heap demo_renderer 2) = []
   \<and> textContent (renderModel 2 (Inr 5) (Inr 6) demo_renderer) = ''Loading widget...''
   \<and> hasClass ''jupyter-widgets'' (renderModel 2 (Inr 5) (Inr 6) demo_renderer)"
proof -
  have h1: "\<not> isDisposed demo_renderer" by (simp add: demo_renderer_eq isDisposed_def)
  have h2: "manager_promise demo_renderer = Some 0" by (simp add: demo_renderer_eq)
  have h3: "bundles demo_renderer 2 (mimeType demo_renderer) = Some 2"
    by (simp add: demo_renderer_eq demo_bundles_def)
  have h4: "model_id (heap demo_renderer 2) = []" by (simp add: demo_renderer_eq demo_heap_def)
  have "textContent (renderModel 2 (Inr 5) (Inr 6) demo_renderer) = ''Loading widget...''
      \<and> hasClass ''jupyter-widgets'' (renderModel 2 (Inr 5) (Inr 6) demo_renderer)"
    using C10_empty_id_keeps_placeholder [OF h1 h2 h3 h4, of "Inr 5" "Inr 6"] by blast
  then show ?thesis
    using h1 h2 h3 h4 by blast
qed

subsection \<open>C7: disposal\<close>

text \<open>
  Claim C7: \<^verbatim>\<open>dispose\<close> is idempotent; after any sequence of events on a new renderer,
  \<^verbatim>\<open>isDisposed\<close> is true exactly when \<^verbatim>\<open>dispose\<close> was among them, so it is false
  before the first call and true after it; and \<^verbatim>\<open>isDisposed\<close> is true exactly when the
  field \<^verbatim>\<open>_manager\<close> has been set to \<^verbatim>\<open>null\<close>.
\<close>

theorem C7_dispose_idempotent:
  "dispose (dispose w) = dispose w
   \<and> isDisposed (dispose w)
   \<and> isDisposed (run evs (new_WidgetRenderer mt manager bs hp rs)) = (Dispose \<in> set evs)
   \<and> isDisposed w = manager_null w"
  by (simp add: isDisposed_def run_def manager_null_fold manager_null_new dispose_def)

subsection \<open>C2: a failure of \<open>get_model\<close> after restoration\<close>

text \<open>
  Claim C2 says that a render in which \<^verbatim>\<open>get_model\<close> fails while \<^verbatim>\<open>restoredStatus\<close>
  is true leaves no pending-retry bundle, so that every later \<^verbatim>\<open>restored\<close> signal
  does nothing, also when an earlier render had recorded one. The \<^verbatim>\<open>catch\<close> returns at
  line 69 without clearing \<^verbatim>\<open>_rerenderMimeModel\<close>, which only line 78 clears. Here the
  render of model \<open>0\<close> fails before restoration and records the model; the manager
  finishes restoring and fires \<^verbatim>\<open>restored\<close>; the retried render (task \<open>1\<close>) fails
  while \<^verbatim>\<open>restoredStatus\<close> is true and shows the error; the model is still recorded,
  and the next \<^verbatim>\<open>restored\<close> replaces the error by the placeholder and starts a
  third render.
\<close>

theorem C2_stale_retry_after_terminal_failure:
  "restoredStatus
     (run [RenderModel 0, ManagerReady 0, GetModelSettled 0 (Inl (Reason 404)),
           SetRestoredStatus 0 True, Restored 0, ManagerReady 1] demo_renderer) 0
   \<and> tasks
     (run [RenderModel 0, ManagerReady 0, GetModelSettled 0 (Inl (Reason 404)),
           SetRestoredStatus 0 True, Restored 0, ManagerReady 1] demo_renderer) ! 1
       = AwaitGetModel 0 0 0
   \<and> textContent
     (run [RenderModel 0, ManagerReady 0, GetModelSettled 0 (Inl (Reason 404)),
           SetRestoredStatus 0 True, Restored 0, ManagerReady 1,
           GetModelSettled 1 (Inl (Reason 404))] demo_renderer)
       = ''Error displaying widget: model not found''
   \<and> rerenderMimeModel
     (run [RenderModel 0, ManagerReady 0, GetModelSettled 0 (Inl (Reason 404)),
           SetRestoredStatus 0 True, Restored 0, ManagerReady 1,
           GetModelSettled 1 (Inl (Reason 404))] demo_renderer)
       = Some 0
   \<and> tasks
     (run [RenderModel 0, ManagerReady 0, GetModelSettled 0 (Inl (Reason 404)),
           SetRestoredStatus 0 True, Restored 0, ManagerReady 1,
           GetModelSettled 1 (Inl (Reason 404)), Restored 0] demo_renderer)
       = [Fulfilled, Fulfilled, AwaitManager 0 (Some 0)]
   \<and> textContent
     (run [RenderModel 0, ManagerReady 0, GetModelSettled 0 (Inl (Reason 404)),
           SetRestoredStatus 0 True, Restored 0, ManagerReady 1,
           GetModelSettled 1 (Inl (Reason 404)), Restored 0] demo_renderer)
       = ''Loading widget...''"
  by (simp add: run_def demo_simps restored_emit_def rerender_def segment_defs lumino_defs Let_def)

subsection \<open>C3: a failure of \<open>get_model\<close> before restoration\<close>

text \<open>
  Claim C3: on a renderer that has not been disposed and whose manager \<open>m\<close> is bound, a
  render in which \<^verbatim>\<open>get_model\<close> fails while \<^verbatim>\<open>restoredStatus\<close> is false is fulfilled
  with the container still showing \<^verbatim>\<open>Loading widget...\<close>, nothing reported, and the
  mime model passed to the call recorded for a retry; when \<^verbatim>\<open>restored\<close> fires next,
  exactly one new render is started, of that mime model, and it has made no call on the
  manager yet.
\<close>

theorem C3_transient_failure_is_retried_once:
  assumes "Dispose \<notin> set evs" and "w = run evs (new_WidgetRenderer mt manager bs hp rs)"
    and "manager_promise w = Some m" and "bundles w model (mimeType w) = Some s"
    and "model_id (heap w s) \<noteq> []" and "\<not> restoredStatus w m"
    and "w' = renderModel model (Inl err) dm w"
  shows "tasks w' ! length (tasks w) = Fulfilled
       \<and> textContent w' = ''Loading widget...''
       \<and> hasClass ''jupyter-widgets'' w'
       \<and> console w' = console w
       \<and> rerenderMimeModel w' = Some model
       \<and> tasks (restored_emit m w') = tasks w' @ [AwaitManager model (Some s)]
       \<and> queries (restored_emit m w') = queries w'"
proof -
  have "intact w" using assms(1,2) by (simp add: intact_run)
  then have live: "\<not> manager_null w" "m \<in> set (restored_slots w)"
    using assms(3) by (simp_all add: intact_def)
  have w': "w' = (addClass ''jupyter-widgets'' (set_textContent ''Loading widget...'' w))
             \<lparr>tasks := tasks w @ [Fulfilled],
              queries := queries w @ [GetModel m (model_id (heap w s))],
              rerenderMimeModel := Some model\<rparr>"
    using live(1) assms(3-7)
    by (simp add: renderModel_def render_get_model after_get_model_def resume_display_def
        lumino_defs Let_def)
  show ?thesis
    using live assms(4)
    by (simp add: w' restored_emit_def rerender_def renderModel_call_def lumino_defs Let_def)
qed

theorem C3_transient_failure_is_retried_once_witness:
  "Dispose \<notin> set []
   \<and> demo_renderer = run [] (new_WidgetRenderer widget_mime (Some 0) demo_bundles demo_heap demo_status)
   \<and> manager_promise demo_renderer = Some 0
   \<and> bundles demo_renderer 0 (mimeType demo_renderer) = Some 0
   \<and> model_id (heap demo_renderer 0) \<noteq> []
   \<and> \<not> restoredStatus demo_renderer 0
   \<and> rerenderMimeModel (renderModel 0 (Inl (Reason 404)) (Inr 0) demo_renderer) = Some 0
   \<and> tasks (restored_emit 0 (renderModel 0 (Inl (Reason 404)) (Inr 0) demo_renderer)) =
       tasks (renderModel 0 (Inl (Reason 404)) (Inr 0) demo_renderer) @ [AwaitManager 0 (Some 0)]"
proof -
  have h1: "Dispose \<notin> set []" by simp
  have h3: "manager_promise demo_renderer = Some 0" by (simp add: demo_simps)
  have h4: "bundles demo_renderer 0 (mimeType demo_renderer) = Some 0" by (simp add: demo_simps)
  have h5: "model_id (heap demo_renderer 0) \<noteq> []" by (simp add: demo_simps)
  have h6: "\<not> restoredStatus demo_renderer 0" by (simp add: demo_simps)
  note c = C3_transient_failure_is_retried_once [OF h1 demo_renderer_run h3 h4 h5 h6 refl,
      where err = "Reason 404" and dm = "Inr 0"]
  show ?thesis using h1 demo_renderer_run h3 h4 h5 h6 c by blast
qed

subsection \<open>C5: a failure of \<open>display_model\<close>\<close>

text \<open>
  Claim C5: on a renderer that has not been disposed and whose manager is bound, a render
  in which \<^verbatim>\<open>get_model\<close> succeeds and \<^verbatim>\<open>display_model\<close> fails is fulfilled with the
  container showing \<^verbatim>\<open>Error displaying widget\<close>, the error reported with
  \<^verbatim>\<open>console.error\<close>, and no mime model recorded, so that any number of \<^verbatim>\<open>restored\<close>
  signals afterwards leave the state as it is.
\<close>

theorem C5_display_failure_is_final:
  assumes "\<not> isDisposed w" and "manager_promise w = Some m"
    and "bundles w model (mimeType w) = Some s" and "model_id (heap w s) \<noteq> []"
    and "w' = renderModel model (Inr wModel) (Inl err) w"
  shows "tasks w' ! length (tasks w) = Fulfilled
       \<and> textContent w' = ''Error displaying widget''
       \<and> hasClass ''jupyter-widgets'' w'
       \<and> console w' = console w @ [err]
       \<and> rerenderMimeModel w' = None
       \<and> fold restored_emit ms w' = w'"
proof -
  have w': "w' = (addClass ''jupyter-widgets'' (set_textContent ''Error displaying widget'' w))
             \<lparr>tasks := tasks w @ [Fulfilled],
              queries := queries w @ [GetModel m (model_id (heap w s)), DisplayModel m wModel],
              rerenderMimeModel := None, console := console w @ [err]\<rparr>"
    using assms
    by (simp add: isDisposed_def renderModel_def render_get_model after_get_model_def
        resume_display_def after_display_def lumino_defs Let_def)
  have "rerenderMimeModel w' = None" by (simp add: w' lumino_defs)
  then have "fold restored_emit ms w' = w'" by (rule restored_noop)
  then show ?thesis by (simp add: w' lumino_defs)
qed

theorem C5_display_failure_is_final_witness:
  "\<not> isDisposed demo_renderer
   \<and> manager_promise demo_renderer = Some 0
   \<and> bundles demo_renderer 0 (mimeType demo_renderer) = Some 0
   \<and> model_id (heap demo_renderer 0) \<noteq> []
   \<and> textContent (renderModel 0 (Inr 5) (Inl (Reason 9)) demo_renderer) = ''Error displaying widget''
   \<and> console (renderModel 0 (Inr 5) (Inl (Reason 9)) demo_renderer) = console demo_renderer @ [Reason 9]
   \<and> fold restored_emit [0, 0] (renderModel 0 (Inr 5) (Inl (Reason 9)) demo_renderer) =
       renderModel 0 (Inr 5) (Inl (Reason 9)) demo_renderer"
proof -
  have h1: "\<not> isDisposed demo_renderer" by (simp add: demo_simps isDisposed_def)
  have h2: "manager_promise demo_renderer = Some 0" by (simp add: demo_simps)
  have h3: "bundles demo_renderer 0 (mimeType demo_renderer) = Some 0" by (simp add: demo_simps)
  have h4: "model_id (heap demo_renderer 0) \<noteq> []" by (simp add: demo_simps)
  note c = C5_display_failure_is_final [OF h1 h2 h3 h4 refl,
      where wModel = 5 and err = "Reason 9" and ms = "[0, 0]"]
  show ?thesis using h1 h2 h3 h4 c by blast
qed

subsection \<open>C6: a render that succeeds\<close>




subsection \<open>C8: setting the manager again\<close>

text \<open>
  Claim C8: the first call of the setter resolves the manager promise with its manager.
  On a renderer that has not been disposed and whose promise is resolved with \<open>m\<close>, a
  further call of the setter with any manager \<open>v\<close> throws nothing and leaves the promise
  resolved with \<open>m\<close>, so a render that was waiting for the manager goes on with \<open>m\<close>;
  after the call the \<^verbatim>\<open>restored\<close> signal of \<open>v\<close> is connected to \<^verbatim>\<open>_rerender\<close>.
\<close>

theorem C8_manager_resolves_once:
  assumes "\<not> isDisposed w" and "manager_promise w = Some m"
    and "i < length (tasks w)" and "tasks w ! i = AwaitManager model (Some s)"
    and "model_id (heap w s) \<noteq> []"
  shows "manager_promise (snd (set_manager m (fresh mt bs hp rs))) = Some m
       \<and> fst (set_manager v w) = None
       \<and> manager_promise (snd (set_manager v w)) = Some m
       \<and> v \<in> set (restored_slots (snd (set_manager v w)))
       \<and> restored_emit v (snd (set_manager v w)) = rerender (snd (set_manager v w))
       \<and> tasks (resume_manager i (snd (set_manager v w))) ! i = AwaitGetModel model s m"
  using assms
  by (simp add: isDisposed_def set_manager_def fresh_def restored_emit_def resume_manager_def
      after_manager_def lumino_defs Let_def)

theorem C8_manager_resolves_once_witness:
  "\<not> isDisposed (renderModel_call 0 demo_renderer)
   \<and> manager_promise (renderModel_call 0 demo_renderer) = Some 0
   \<and> 0 < length (tasks (renderModel_call 0 demo_renderer))
   \<and> tasks (renderModel_call 0 demo_renderer) ! 0 = AwaitManager 0 (Some 0)
   \<and> model_id (heap (renderModel_call 0 demo_renderer) 0) \<noteq> []
   \<and> manager_promise (snd (set_manager 7 (renderModel_call 0 demo_renderer))) = Some 0
   \<and> 7 \<in> set (restored_slots (snd (set_manager 7 (renderModel_call 0 demo_renderer))))
   \<and> tasks (resume_manager 0 (snd (set_manager 7 (renderModel_call 0 demo_renderer)))) ! 0 =
       AwaitGetModel 0 0 0"
proof -
  have h1: "\<not> isDisposed (renderModel_call 0 demo_renderer)"
    by (simp add: demo_simps isDisposed_def renderModel_call_def lumino_defs Let_def)
  have h2: "manager_promise (renderModel_call 0 demo_renderer) = Some 0"
    by (simp add: demo_simps renderModel_call_def lumino_defs Let_def)
  have h3: "0 < length (tasks (renderModel_call 0 demo_renderer))"
    by (simp add: demo_simps renderModel_call_def lumino_defs Let_def)
  have h4: "tasks (renderModel_call 0 demo_renderer) ! 0 = AwaitManager 0 (Some 0)"
    by (simp add: demo_simps renderModel_call_def lumino_defs Let_def)
  have h5: "model_id (heap (renderModel_call 0 demo_renderer) 0) \<noteq> []"
    by (simp add: demo_simps renderModel_call_def lumino_defs Let_def)
  note c = C8_manager_resolves_once [OF h1 h2 h3 h4 h5, where v = 7]
  show ?thesis using h1 h2 h3 h4 h5 c by blast
qed

subsection \<open>C9: the pending-retry bundle\<close>

text \<open>
  Claim C9: the renderer holds at most one pending-retry bundle, and a render that is
  resumed with the widget model \<^verbatim>\<open>get_model\<close> returned sets
  \<^verbatim>\<open>_rerenderMimeModel\<close> to \<^verbatim>\<open>null\<close>: it is \<open>None\<close> in the state where the render has
  called \<^verbatim>\<open>display_model\<close> and waits for the view.
\<close>

theorem C9_success_clears_pending:
  assumes "i < length (tasks w)" and "tasks w ! i = AwaitGetModel model s m"
  shows "card (set_option (rerenderMimeModel w)) \<le> 1
       \<and> rerenderMimeModel (resume_get_model i (Inr wModel) w) = None
       \<and> tasks (resume_get_model i (Inr wModel) w) ! i = AwaitDisplay model s m
       \<and> queries (resume_get_model i (Inr wModel) w) = queries w @ [DisplayModel m wModel]"
  using assms
  by (cases "rerenderMimeModel w")
     (simp_all add: resume_get_model_def after_get_model_def lumino_defs)

theorem C9_success_clears_pending_witness:
  "0 < length (tasks (resume_manager 0 (renderModel_call 0 demo_renderer)))
   \<and> tasks (resume_manager 0 (renderModel_call 0 demo_renderer)) ! 0 = AwaitGetModel 0 0 0
   \<and> rerenderMimeModel
       (resume_get_model 0 (Inr 5) (resume_manager 0 (renderModel_call 0 demo_renderer))) = None
   \<and> tasks (resume_get_model 0 (Inr 5) (resume_manager 0 (renderModel_call 0 demo_renderer))) ! 0 =
       AwaitDisplay 0 0 0"
proof -
  have h1: "0 < length (tasks (resume_manager 0 (renderModel_call 0 demo_renderer)))"
    by (simp add: demo_simps segment_defs lumino_defs Let_def)
  have h2: "tasks (resume_manager 0 (renderModel_call 0 demo_renderer)) ! 0 = AwaitGetModel 0 0 0"
    by (simp add: demo_simps segment_defs lumino_defs Let_def)
  note c = C9_success_clears_pending [OF h1 h2, where wModel = 5]
  show ?thesis using h1 h2 c by blast
qed

end
